theory Spec2Isabelle
  imports Complex_Main "HOL-Library.List_Lexorder" "HOL-Library.Product_Lexorder"
begin

section \<open>The price-intelligence application \<open>app.py\<close>\<close>

text \<open>
  The development embeds the two functions of \<open>app.py\<close> that carry a contract:
  \<open>load_item_data\<close> (the pandas pipeline that cleans and aggregates the dataset) and
  \<open>chat_api\<close> (the handler of \<open>POST /api/chat\<close>).

  Conventions of the embedding.
  \<^item> A Python \<open>str\<close> is the list of its Unicode code points; the order of
    \<open>HOL-Library.List_Lexorder\<close> on such lists is Python's comparison of strings, and
    tuples of keys are compared lexicographically (\<open>HOL-Library.Product_Lexorder\<close>).
  \<^item> A cell of the data frame is an \<open>option\<close>: \<open>None\<close> is pandas' null
    (\<open>None\<close> or \<open>NaN\<close>), which is what \<open>dropna\<close> tests. The item-name, location
    and unit columns are columns of strings, the price column is numeric.
  \<^item> Prices are \<open>float64\<close> values in pandas. The type of prices is left polymorphic,
    and the two numeric operations the pipeline calls, \<open>Series.mean\<close> on the prices of a
    group (in row order) and \<open>round(2)\<close>, are parameters \<open>mean\<close> and \<open>round2\<close> of
    the loader. Their arithmetic is given on exact decimals (\<open>mean_exact\<close>,
    \<open>round2_exact\<close>); the representation error of \<open>float64\<close> is not part of the model.
  \<^item> An exception is a value of \<open>py_error\<close>; the result of \<open>pd.read_parquet\<close>, which
    depends on the file system, is the loader's argument.
\<close>

subsection \<open>Python strings\<close>

type_synonym str = "nat list"

definition lit :: "string \<Rightarrow> str" where
  "lit s = map of_char s"

text \<open>
  The code points that \<open>str.strip()\<close> removes: U+0009 to U+000D, U+001C to U+0020,
  U+0085, U+00A0, U+1680, U+2000 to U+200A, U+2028, U+2029, U+202F, U+205F, U+3000.
\<close>

definition isspace :: "nat \<Rightarrow> bool" where
  "isspace c \<longleftrightarrow>
     (9 \<le> c \<and> c \<le> 13) \<or> (28 \<le> c \<and> c \<le> 32) \<or> c = 133 \<or> c = 160 \<or> c = 5760 \<or>
     (8192 \<le> c \<and> c \<le> 8202) \<or> c = 8232 \<or> c = 8233 \<or> c = 8239 \<or> c = 8287 \<or> c = 12288"

definition strip :: "str \<Rightarrow> str" where
  "strip s = rev (dropWhile isspace (rev (dropWhile isspace s)))"

subsection \<open>The data frame and the loader's result\<close>

datatype py_error =
    FileNotFoundError
  | KeyError "str list"
  | AttributeError
  | OtherException str

text \<open>One row of the Parquet file, restricted to the four columns the loader reads.\<close>

record 'p raw_row =
  col_item_name :: "str option"
  col_price :: "'p option"
  col_location :: "str option"
  col_unit :: "str option"

record 'p dataframe =
  columns :: "str list"
  rows :: "'p raw_row list"

text \<open>A row that \<open>dropna\<close> has kept: none of its four cells is null.\<close>

record 'p row =
  r_name :: str
  r_price :: 'p
  r_location :: str
  r_unit :: str

text \<open>An element of \<open>item_data_list\<close>: a dictionary with the keys \<open>location\<close>, \<open>unit\<close>,
  \<open>name\<close> and \<open>price\<close>.\<close>

record 'p agg =
  location :: str
  unit :: str
  name :: str
  price :: 'p

type_synonym group_key = "str \<times> str \<times> str"

definition COL_ITEM_NAME :: str where "COL_ITEM_NAME = lit ''subsubcategory''"
definition COL_PRICE :: str where "COL_PRICE = lit ''avg_price''"
definition COL_LOCATION :: str where "COL_LOCATION = lit ''location''"
definition COL_UNIT :: str where "COL_UNIT = lit ''unit_raw''"

subsection \<open>\<open>load_item_data\<close>\<close>

text \<open>\<open>df.dropna(subset=[COL_ITEM_NAME, COL_LOCATION, COL_UNIT, COL_PRICE])\<close>: raises
  \<open>KeyError\<close> with the columns of the subset that the frame does not have (see
  \<open>load_body\<close>), and otherwise keeps the rows with no null among the four cells.\<close>

definition dropna_row :: "'p raw_row \<Rightarrow> 'p row option" where
  "dropna_row r =
     (case (col_item_name r, col_location r, col_unit r, col_price r) of
        (Some n, Some l, Some u, Some p) \<Rightarrow>
          Some \<lparr>r_name = n, r_price = p, r_location = l, r_unit = u\<rparr>
      | _ \<Rightarrow> None)"

definition dropna :: "'p raw_row list \<Rightarrow> 'p row list" where
  "dropna rs = List.map_filter dropna_row rs"

text \<open>\<open>df[df[COL_ITEM_NAME].astype(str).str.strip() != '']\<close>\<close>

definition nonblank_name :: "'p row list \<Rightarrow> 'p row list" where
  "nonblank_name rs = filter (\<lambda>r. strip (r_name r) \<noteq> []) rs"

definition clean :: "'p raw_row list \<Rightarrow> 'p row list" where
  "clean rs = nonblank_name (dropna rs)"

text \<open>
  \<open>df.groupby([COL_LOCATION, COL_UNIT, COL_ITEM_NAME])[COL_PRICE].mean().reset_index()\<close>.
  pandas walks the rows once and collects the prices of each key in row order
  (\<open>add_to_group\<close>, \<open>collect_groups\<close>); with the default \<open>sort=True\<close> the groups come out
  ordered by their key; \<open>mean\<close> is applied to the prices of each group.
\<close>

definition row_key :: "'p row \<Rightarrow> group_key" where
  "row_key r = (r_location r, r_unit r, r_name r)"

fun add_to_group :: "'k \<Rightarrow> 'v \<Rightarrow> ('k \<times> 'v list) list \<Rightarrow> ('k \<times> 'v list) list" where
  "add_to_group k v [] = [(k, [v])]"
| "add_to_group k v ((k', vs) # gs) =
     (if k = k' then (k', vs @ [v]) # gs else (k', vs) # add_to_group k v gs)"

definition collect_groups :: "'p row list \<Rightarrow> (group_key \<times> 'p list) list" where
  "collect_groups rs = foldl (\<lambda>gs r. add_to_group (row_key r) (r_price r) gs) [] rs"

definition groupby_mean :: "('p list \<Rightarrow> 'p) \<Rightarrow> 'p row list \<Rightarrow> (group_key \<times> 'p) list" where
  "groupby_mean mean rs = map (\<lambda>(k, ps). (k, mean ps)) (sort_key fst (collect_groups rs))"

text \<open>\<open>Series.unique()\<close>: the distinct values in order of first appearance.\<close>

fun unique :: "'a list \<Rightarrow> 'a list" where
  "unique [] = []"
| "unique (x # xs) = x # unique (filter (\<lambda>y. y \<noteq> x) xs)"

definition to_record :: "('p \<Rightarrow> 'p) \<Rightarrow> group_key \<times> 'p \<Rightarrow> 'p agg" where
  "to_record round2 g =
     (case g of ((l, u, n), p) \<Rightarrow> \<lparr>location = l, unit = u, name = n, price = round2 p\<rparr>)"

definition agg_key :: "'p agg \<Rightarrow> group_key" where
  "agg_key a = (location a, unit a, name a)"

text \<open>The body of the \<open>try\<close> block; \<open>read_parquet\<close> is the outcome of
  \<open>pd.read_parquet(parquet_path)\<close>.\<close>

definition load_body ::
  "('p list \<Rightarrow> 'p) \<Rightarrow> ('p \<Rightarrow> 'p) \<Rightarrow> py_error + 'p dataframe \<Rightarrow>
     py_error + ('p agg list \<times> str list \<times> str list)" where
  "load_body mean round2 read_parquet =
     (case read_parquet of
        Inl e \<Rightarrow> Inl e
      | Inr df \<Rightarrow>
          (let missing = filter (\<lambda>c. c \<notin> set (columns df))
                           [COL_ITEM_NAME, COL_LOCATION, COL_UNIT, COL_PRICE]
           in if missing \<noteq> [] then Inl (KeyError missing)
              else
                let grouped_df = map (to_record round2) (groupby_mean mean (clean (rows df)));
                    unique_locations = sort (unique (map location grouped_df));
                    unique_units = sort (unique (map unit grouped_df))
                in Inr (grouped_df, unique_locations, unique_units)))"

text \<open>The three \<open>except\<close> clauses (\<open>FileNotFoundError\<close>, \<open>KeyError\<close>, \<open>Exception\<close>) all
  return three empty lists.\<close>

definition load_item_data ::
  "('p list \<Rightarrow> 'p) \<Rightarrow> ('p \<Rightarrow> 'p) \<Rightarrow> py_error + 'p dataframe \<Rightarrow>
     'p agg list \<times> str list \<times> str list" where
  "load_item_data mean round2 read_parquet =
     (case load_body mean round2 read_parquet of
        Inr result \<Rightarrow> result
      | Inl FileNotFoundError \<Rightarrow> ([], [], [])
      | Inl (KeyError e) \<Rightarrow> ([], [], [])
      | Inl e \<Rightarrow> ([], [], []))"

text \<open>
  Exact decimal arithmetic for the two numeric parameters, used to evaluate the loader on
  concrete prices: the mean of a non-empty group, and rounding to two decimals with halves
  to even (NumPy's convention). On prices such as 5.00 and 7.00 the \<open>float64\<close> computation
  of pandas is exact and agrees with it.
\<close>

definition mean_exact :: "rat list \<Rightarrow> rat" where
  "mean_exact ps = sum_list ps / of_nat (length ps)"

definition round_half_even :: "rat \<Rightarrow> int" where
  "round_half_even x =
     (let f = \<lfloor>x\<rfloor>; d = x - of_int f
      in if d < 1 / 2 then f else if 1 / 2 < d then f + 1 else if even f then f else f + 1)"

definition round2_exact :: "rat \<Rightarrow> rat" where
  "round2_exact x = of_int (round_half_even (x * 100)) / 100"

text \<open>The prices of the rows of \<open>rs\<close> whose key is \<open>k\<close>, in row order.\<close>

definition group_prices :: "'p row list \<Rightarrow> group_key \<Rightarrow> 'p list" where
  "group_prices rs k = map r_price (filter (\<lambda>r. row_key r = k) rs)"

text \<open>Concrete frames for evaluating the loader.\<close>

definition all_columns :: "str list" where
  "all_columns = [COL_ITEM_NAME, COL_PRICE, COL_LOCATION, COL_UNIT]"

definition raw :: "string \<Rightarrow> rat \<Rightarrow> string \<Rightarrow> string \<Rightarrow> rat raw_row" where
  "raw n p l u =
     \<lparr>col_item_name = Some (lit n), col_price = Some p,
      col_location = Some (lit l), col_unit = Some (lit u)\<rparr>"

definition rice_frame :: "rat dataframe" where
  "rice_frame =
     \<lparr>columns = all_columns,
      rows = [raw ''Rice'' 5 ''KL'' ''kg'', raw ''Rice'' 7 ''KL'' ''kg'']\<rparr>"

definition blank_name_row :: "rat raw_row" where
  "blank_name_row = raw '' '' 9 ''KL'' ''kg''"

definition null_price_row :: "rat raw_row" where
  "null_price_row = (raw ''Rice'' 0 ''KL'' ''kg'')\<lparr>col_price := None\<rparr>"

definition blank_location_row :: "rat raw_row" where
  "blank_location_row = raw ''Rice'' 5 '' '' ''kg''"


definition market_frame :: "rat dataframe" where
  "market_frame =
     \<lparr>columns = all_columns,
      rows = [raw ''Rice'' 5 ''KL'' ''kg'', raw ''Egg'' 1 ''JB'' ''unit'',
              raw ''Rice'' 7 ''KL'' ''kg'', raw ''Rice'' 4 ''JB'' ''kg'']\<rparr>"

subsection \<open>\<open>chat_api\<close>\<close>

text \<open>
  The parsed JSON body of the request (\<open>request.json\<close>). \<open>JNum\<close> carries the value of a
  JSON number and \<open>JDict\<close> the items of the parsed object, whose keys are pairwise
  different.
\<close>

datatype json =
    JNull
  | JBool bool
  | JNum rat
  | JStr str
  | JList "json list"
  | JDict "(str \<times> json) list"

text \<open>Python's truth value of a parsed JSON value, as tested by \<open>not user_prompt\<close>.\<close>

fun truthy :: "json \<Rightarrow> bool" where
  "truthy JNull = False"
| "truthy (JBool b) = b"
| "truthy (JNum x) = (x \<noteq> 0)"
| "truthy (JStr s) = (s \<noteq> [])"
| "truthy (JList xs) = (xs \<noteq> [])"
| "truthy (JDict kvs) = (kvs \<noteq> [])"

text \<open>\<open>request.json.get(k)\<close>: \<open>None\<close> for a key the dictionary does not have;
  \<open>AttributeError\<close> when the body is not a dictionary.\<close>

definition json_get :: "json \<Rightarrow> str \<Rightarrow> py_error + json" where
  "json_get body k =
     (case body of
        JDict kvs \<Rightarrow> (case map_of kvs k of None \<Rightarrow> Inr JNull | Some v \<Rightarrow> Inr v)
      | _ \<Rightarrow> Inl AttributeError)"

text \<open>The arguments of one call of \<open>gemini_client.models.generate_content\<close>.\<close>

record request =
  model :: str
  contents :: str
  system_instruction :: str

text \<open>The initialised client: a call either raises (\<open>Inl\<close>, carrying \<open>str(e)\<close>) or
  returns the text of the response. \<open>gemini_client\<close> is \<open>None\<close> when
  \<open>genai.Client\<close> raised at start-up.\<close>

type_synonym client = "request \<Rightarrow> str + str"

text \<open>\<open>jsonify({'response': ...})\<close> with its HTTP status.\<close>

record http_response =
  response :: str
  status :: nat

text \<open>The decimal digits of \<open>len(PI_DATA)\<close>.\<close>

fun decimal :: "nat \<Rightarrow> str" where
  "decimal n = (if n < 10 then [48 + n] else decimal (n div 10) @ [48 + n mod 10])"

declare decimal.simps [simp del]

text \<open>An f-string field \<open>{user_prompt}\<close>: a string is inserted as it is, any other value
  through Python's \<open>str()\<close>, the parameter \<open>py_str\<close>.\<close>

definition format_field :: "(json \<Rightarrow> str) \<Rightarrow> json \<Rightarrow> str" where
  "format_field py_str v = (case v of JStr s \<Rightarrow> s | _ \<Rightarrow> py_str v)"

definition system_instruction_text :: "nat \<Rightarrow> str" where
  "system_instruction_text n =
     lit ''You are an expert Price Intelligent (PI) assistant. Your task is to analyze the provided '' @
     lit ''JSON data containing item names, locations, units, and average prices in RM, and answer '' @
     lit ''the user'' @ [39] @ lit ''s question based *only* on this data. The data has '' @
     decimal n @ lit '' entries.'' @
     lit ''Provide specific item names, prices, locations, and units from the data to support your answer. '' @
     lit ''Do not invent information. Format the final response clearly, using bold text for key results.''"

definition full_prompt_text :: "str \<Rightarrow> str \<Rightarrow> str" where
  "full_prompt_text item_data_json user_prompt =
     lit ''Data for analysis (JSON Array of Objects):'' @ [10] @
     [96, 96, 96] @ lit ''json'' @ [10] @ item_data_json @ [10] @ [96, 96, 96] @ [10, 10] @
     lit ''User Question:'' @ [10] @ user_prompt"

text \<open>
  The handler. Its parameters are \<open>to_json\<close> (pandas' \<open>DataFrame(PI_DATA).to_json(orient='records')\<close>),
  \<open>py_str\<close>, the module-level \<open>gemini_client\<close> and \<open>PI_DATA\<close>, and the parsed body of
  the request. It returns the response, or the exception that leaves the handler, together
  with the list of the calls it made to the remote service.
\<close>

definition chat_api ::
  "('p agg list \<Rightarrow> str) \<Rightarrow> (json \<Rightarrow> str) \<Rightarrow> client option \<Rightarrow> 'p agg list \<Rightarrow> json \<Rightarrow>
     (py_error + http_response) \<times> request list" where
  "chat_api to_json py_str gemini_client PI_DATA request_json =
     (case gemini_client of
        None \<Rightarrow>
          (Inr \<lparr>response = lit ''AI Client not initialized. Please check your API key and setup.'',
                status = 500\<rparr>, [])
      | Some generate_content \<Rightarrow>
          (case json_get request_json (lit ''prompt'') of
             Inl e \<Rightarrow> (Inl e, [])
           | Inr user_prompt \<Rightarrow>
               if \<not> truthy user_prompt
               then (Inr \<lparr>response = lit ''No prompt provided.'', status = 400\<rparr>, [])
               else
                 let item_data_json = to_json PI_DATA;
                     req = \<lparr>model = lit ''gemini-2.5-flash'',
                            contents = full_prompt_text item_data_json
                                         (format_field py_str user_prompt),
                            system_instruction = system_instruction_text (length PI_DATA)\<rparr>
                 in (case generate_content req of
                       Inr text \<Rightarrow> (Inr \<lparr>response = text, status = 200\<rparr>, [req])
                     | Inl e \<Rightarrow>
                         (Inr \<lparr>response =
                                 lit ''Sorry, there was an error processing your request: '' @ e,
                               status = 500\<rparr>, [req]))))"

text \<open>A client that echoes the question it is sent, for evaluating the handler.\<close>

definition echo_client :: client where
  "echo_client req = Inr (contents req)"

section \<open>Properties of the loader\<close>

subsection \<open>Grouping\<close>


lemma keys_add_to_group:
  "map fst (add_to_group k v gs) = (if k \<in> fst ` set gs then map fst gs else map fst gs @ [k])"
  by (induction gs) force+

lemma distinct_add_to_group:
  "distinct (map fst gs) \<Longrightarrow> distinct (map fst (add_to_group k v gs))"
  by (simp add: keys_add_to_group)

lemma distinct_foldl_groups:
  "distinct (map fst gs) \<Longrightarrow>
   distinct (map fst (foldl (\<lambda>gs r. add_to_group (row_key r) (r_price r) gs) gs rs))"
  by (induction rs arbitrary: gs) (simp_all add: distinct_add_to_group)


lemma distinct_collect_groups: "distinct (map fst (collect_groups rs))"
  unfolding collect_groups_def by (rule distinct_foldl_groups) simp



lemma keys_groupby_mean: "map fst (groupby_mean mean rs) = map fst (sort_key fst (collect_groups rs))"
  by (simp add: groupby_mean_def case_prod_unfold comp_def)

lemma sorted_groupby_mean: "sorted (map fst (groupby_mean mean rs))"
  by (simp add: keys_groupby_mean)

lemma distinct_groupby_mean: "distinct (map fst (groupby_mean mean rs))"
proof -
  have "distinct (map fst (sort_key fst (collect_groups rs)))"
    using distinct_collect_groups [of rs] by (simp add: distinct_map)
  then show ?thesis by (simp add: keys_groupby_mean)
qed


lemma group_prices_nonempty: "group_prices rs k \<noteq> [] \<longleftrightarrow> k \<in> row_key ` set rs"
  by (auto simp: group_prices_def filter_empty_conv)

lemma agg_key_to_record: "agg_key (to_record round2 g) = fst g"
  by (cases g) (auto simp: agg_key_def to_record_def)


lemma set_unique: "set (unique xs) = set xs"
  by (induction xs rule: unique.induct) auto

lemma distinct_unique: "distinct (unique xs)"
  by (induction xs rule: unique.induct) (auto simp: set_unique)

lemma strip_empty_iff: "strip s = [] \<longleftrightarrow> (\<forall>c\<in>set s. isspace c)"
proof
  assume "strip s = []"
  then have "\<forall>c\<in>set (dropWhile isspace s). isspace c"
    by (simp add: strip_def)
  then have "dropWhile isspace s = []"
    by (metis hd_dropWhile hd_in_set)
  then show "\<forall>c\<in>set s. isspace c"
    by simp
next
  assume "\<forall>c\<in>set s. isspace c"
  then have "dropWhile isspace s = []" by simp
  then show "strip s = []" by (simp add: strip_def del: dropWhile_eq_Nil_conv)
qed

lemma dropna_append: "dropna (xs @ ys) = dropna xs @ dropna ys"
  by (simp add: dropna_def map_filter_def)

lemma clean_append: "clean (xs @ ys) = clean xs @ clean ys"
  by (simp add: clean_def nonblank_name_def dropna_append)

lemma clean_Cons: "clean (r # rs) = clean [r] @ clean rs"
  using clean_append [of "[r]" rs] by simp

lemma clean_single:
  "clean [r] =
     (case dropna_row r of None \<Rightarrow> [] | Some x \<Rightarrow> if strip (r_name x) = [] then [] else [x])"
  by (simp add: clean_def nonblank_name_def dropna_def map_filter_def split: option.splits)

lemma dropna_row_None_iff:
  "dropna_row r = None \<longleftrightarrow>
     col_item_name r = None \<or> col_price r = None \<or> col_location r = None \<or> col_unit r = None"
  by (auto simp: dropna_row_def split: option.splits)

lemma dropna_row_name: "dropna_row r = Some x \<Longrightarrow> col_item_name r = Some (r_name x)"
  by (auto simp: dropna_row_def split: option.splits)

lemma load_item_data_Inl: "load_item_data mean round2 (Inl e) = ([], [], [])"
  by (cases e) (simp_all add: load_item_data_def load_body_def)

lemma load_item_data_missing:
  "\<not> set [COL_ITEM_NAME, COL_LOCATION, COL_UNIT, COL_PRICE] \<subseteq> set (columns df) \<Longrightarrow>
   load_item_data mean round2 (Inr df) = ([], [], [])"
  by (auto simp: load_item_data_def load_body_def Let_def)

lemma load_item_data_ok:
  "set [COL_ITEM_NAME, COL_LOCATION, COL_UNIT, COL_PRICE] \<subseteq> set (columns df) \<Longrightarrow>
   load_item_data mean round2 (Inr df) =
     (let g = map (to_record round2) (groupby_mean mean (clean (rows df)))
      in (g, sort (unique (map location g)), sort (unique (map unit g))))"
  by (auto simp: load_item_data_def load_body_def Let_def)

subsection \<open>The returned collections\<close>

lemma key_le_iff:
  "((l, u, n) \<le> (l', u', n' :: str)) \<longleftrightarrow>
     (l :: str) < l' \<or> l = l' \<and> ((u :: str) < u' \<or> u = u' \<and> n \<le> n')"
  by (auto simp: less_eq_prod_def)

lemma agg_key_comp_to_record: "agg_key \<circ> to_record round2 = fst"
  by (rule ext) (simp add: agg_key_to_record)

lemma keys_of_records: "map agg_key (map (to_record round2) gs) = map fst gs"
  by (simp add: agg_key_comp_to_record)

lemma load_records:
  "fst (load_item_data mean round2 src) = [] \<or>
   (\<exists>df. src = Inr df \<and>
         fst (load_item_data mean round2 src) =
           map (to_record round2) (groupby_mean mean (clean (rows df))))"
proof (cases src)
  case (Inl e)
  then show ?thesis by (simp add: load_item_data_Inl)
next
  case (Inr df)
  show ?thesis
  proof (cases "set [COL_ITEM_NAME, COL_LOCATION, COL_UNIT, COL_PRICE] \<subseteq> set (columns df)")
    case True
    then show ?thesis unfolding Inr using load_item_data_ok [OF True, of mean round2]
      by (simp add: Let_def)
  next
    case False
    then show ?thesis unfolding Inr using load_item_data_missing [OF False, of mean round2]
      by simp
  qed
qed


text \<open>
  Claim C1. Whatever \<open>pd.read_parquet\<close> produced, no two records of the list returned
  by \<open>load_item_data\<close> have the same key (location, unit, name).
\<close>

theorem aggregated_keys_unique:
  "distinct (map agg_key (fst (load_item_data mean round2 src)))"
  using load_records [of mean round2 src]
  by (auto simp: agg_key_comp_to_record distinct_groupby_mean)

text \<open>
  Claim C9. The list of records returned by \<open>load_item_data\<close> is sorted ascending by
  the key (location, unit, name), compared lexicographically (\<open>key_le_iff\<close>).
\<close>

theorem aggregated_sorted_by_key:
  "sorted (map agg_key (fst (load_item_data mean round2 src)))"
  using load_records [of mean round2 src]
  by (auto simp: agg_key_comp_to_record sorted_groupby_mean)

lemma load_lists:
  "case load_item_data mean round2 src of
     (records, unique_locations, unique_units) \<Rightarrow>
       unique_locations = sort (unique (map location records)) \<and>
       unique_units = sort (unique (map unit records))"
proof (cases src)
  case (Inl e)
  then show ?thesis by (simp add: load_item_data_Inl)
next
  case (Inr df)
  show ?thesis
  proof (cases "set [COL_ITEM_NAME, COL_LOCATION, COL_UNIT, COL_PRICE] \<subseteq> set (columns df)")
    case True
    then show ?thesis unfolding Inr using load_item_data_ok [OF True, of mean round2]
      by (simp add: Let_def)
  next
    case False
    then show ?thesis unfolding Inr using load_item_data_missing [OF False, of mean round2]
      by simp
  qed
qed

text \<open>
  Claim C5. The lists of locations and of units returned by \<open>load_item_data\<close> are sorted
  ascending, have no duplicates, and hold exactly the locations (units) that occur in the
  returned records.
\<close>

theorem category_lists_sorted_distinct:
  "case load_item_data mean round2 src of
     (records, unique_locations, unique_units) \<Rightarrow>
       sorted unique_locations \<and> distinct unique_locations \<and>
       set unique_locations = location ` set records \<and>
       sorted unique_units \<and> distinct unique_units \<and>
       set unique_units = unit ` set records"
  using load_lists [of mean round2 src]
  by (auto simp: set_unique distinct_unique split: prod.splits)


subsection \<open>Evaluation on concrete frames\<close>

lemmas loader_eval =
  load_item_data_def load_body_def rice_frame_def all_columns_def raw_def
  clean_def dropna_def dropna_row_def nonblank_name_def List.map_filter_def strip_def isspace_def
  groupby_mean_def collect_groups_def row_key_def to_record_def lit_def group_prices_def
  COL_ITEM_NAME_def COL_PRICE_def COL_LOCATION_def COL_UNIT_def
  mean_exact_def round2_exact_def round_half_even_def Let_def







lemma load_item_data_clean_cong:
  "clean (rows df) = clean (rows df') \<Longrightarrow> columns df = columns df' \<Longrightarrow>
   load_item_data mean round2 (Inr df) = load_item_data mean round2 (Inr df')"
  by (simp add: load_item_data_def load_body_def)

lemma clean_dropped:
  assumes "col_item_name r = None \<or> col_price r = None \<or> col_location r = None \<or>
           col_unit r = None \<or> (\<exists>s. col_item_name r = Some s \<and> (\<forall>c\<in>set s. isspace c))"
  shows "clean [r] = []"
proof (cases "dropna_row r")
  case None
  then show ?thesis by (simp add: clean_single)
next
  case (Some x)
  then have "col_item_name r = Some (r_name x)" by (rule dropna_row_name)
  moreover from Some have "\<not> (col_item_name r = None \<or> col_price r = None \<or>
      col_location r = None \<or> col_unit r = None)"
    by (simp add: dropna_row_None_iff [symmetric])
  ultimately have "\<forall>c\<in>set (r_name x). isspace c" using assms by auto
  then have "strip (r_name x) = []" by (simp only: strip_empty_iff)
  with Some show ?thesis by (simp add: clean_single)
qed

lemma clean_kept:
  assumes "col_item_name r = Some n" "col_price r = Some p" "col_location r = Some l"
    "col_unit r = Some u" "\<not> (\<forall>c\<in>set n. isspace c)"
  shows "clean [r] = [\<lparr>r_name = n, r_price = p, r_location = l, r_unit = u\<rparr>]"
proof -
  from assms(5) have "strip n \<noteq> []" by (simp only: strip_empty_iff) simp
  with assms(1-4) show ?thesis by (simp add: clean_single dropna_row_def)
qed

lemma clean_remove_dropped:
  assumes "clean [r] = []"
  shows "clean (xs @ r # ys) = clean (xs @ ys)"
proof -
  have "clean (xs @ r # ys) = clean xs @ clean [r] @ clean ys"
    using clean_append [of xs "r # ys"] clean_Cons [of r ys] by simp
  with assms show ?thesis by (simp add: clean_append)
qed

lemma clean_filter_complete:
  "clean (filter (\<lambda>r. clean [r] \<noteq> []) rs) = clean rs"
proof (induction rs)
  case Nil
  show ?case by simp
next
  case (Cons r rs)
  show ?case
  proof (cases "clean [r] = []")
    case True
    then show ?thesis using Cons clean_Cons [of r rs] by simp
  next
    case False
    then show ?thesis
      using Cons clean_Cons [of r rs] clean_Cons [of r "filter (\<lambda>r. clean [r] \<noteq> []) rs"]
      by simp
  qed
qed

lemma clean_nonempty_iff:
  "clean [r] \<noteq> [] \<longleftrightarrow>
     \<not> (col_item_name r = None \<or> col_price r = None \<or> col_location r = None \<or>
        col_unit r = None \<or> (\<exists>s. col_item_name r = Some s \<and> (\<forall>c\<in>set s. isspace c)))"
proof
  assume ne: "clean [r] \<noteq> []"
  show "\<not> (col_item_name r = None \<or> col_price r = None \<or> col_location r = None \<or>
        col_unit r = None \<or> (\<exists>s. col_item_name r = Some s \<and> (\<forall>c\<in>set s. isspace c)))"
  proof
    assume "col_item_name r = None \<or> col_price r = None \<or> col_location r = None \<or>
        col_unit r = None \<or> (\<exists>s. col_item_name r = Some s \<and> (\<forall>c\<in>set s. isspace c))"
    then have "clean [r] = []" by (rule clean_dropped)
    with ne show False by simp
  qed
next
  assume h: "\<not> (col_item_name r = None \<or> col_price r = None \<or> col_location r = None \<or>
        col_unit r = None \<or> (\<exists>s. col_item_name r = Some s \<and> (\<forall>c\<in>set s. isspace c)))"
  then obtain n p l u where "col_item_name r = Some n" "col_price r = Some p"
    "col_location r = Some l" "col_unit r = Some u" by auto
  moreover with h have "\<not> (\<forall>c\<in>set n. isspace c)" by simp
  ultimately have "clean [r] = [\<lparr>r_name = n, r_price = p, r_location = l, r_unit = u\<rparr>]"
    by (rule clean_kept)
  then show "clean [r] \<noteq> []" by simp
qed

text \<open>
  Claim C4. A row in which one of the four required cells is null, or whose item name is
  empty or consists of whitespace only, contributes nothing: the loader returns the same
  three collections with the row as without it, wherever the row stands in the frame.
\<close>

theorem incomplete_row_contributes_nothing:
  assumes "col_item_name r = None \<or> col_price r = None \<or> col_location r = None \<or>
           col_unit r = None \<or> (\<exists>s. col_item_name r = Some s \<and> (\<forall>c\<in>set s. isspace c))"
  shows "load_item_data mean round2 (Inr \<lparr>columns = cols, rows = xs @ r # ys\<rparr>) =
         load_item_data mean round2 (Inr \<lparr>columns = cols, rows = xs @ ys\<rparr>)"
proof (rule load_item_data_clean_cong)
  from assms have "clean [r] = []" by (rule clean_dropped)
  then show "clean (rows \<lparr>columns = cols, rows = xs @ r # ys\<rparr>) =
             clean (rows \<lparr>columns = cols, rows = xs @ ys\<rparr>)"
    by (simp add: clean_remove_dropped)
  show "columns \<lparr>columns = cols, rows = xs @ r # ys\<rparr> = columns \<lparr>columns = cols, rows = xs @ ys\<rparr>"
    by simp
qed

text \<open>
  Claim C3, as amended. The rows in which one of the four required cells is null, or whose
  item name is a blank string, contribute nothing: the loader returns the same three
  collections as on the frame from which all these rows are removed. Blank strings are
  tested in the item-name column only.
\<close>

theorem rows_with_null_or_blank_name_are_ignored:
  "load_item_data mean round2 (Inr \<lparr>columns = cols, rows = rs\<rparr>) =
   load_item_data mean round2
     (Inr \<lparr>columns = cols,
           rows = filter (\<lambda>r. \<not> (col_item_name r = None \<or> col_price r = None \<or>
                                   col_location r = None \<or> col_unit r = None \<or>
                                   (\<exists>s. col_item_name r = Some s \<and> (\<forall>c\<in>set s. isspace c))))
                    rs\<rparr>)"
proof (rule load_item_data_clean_cong)
  have "clean (filter (\<lambda>r. clean [r] \<noteq> []) rs) = clean rs"
    by (rule clean_filter_complete)
  then show "clean (rows \<lparr>columns = cols, rows = rs\<rparr>) =
    clean (rows \<lparr>columns = cols,
           rows = filter (\<lambda>r. \<not> (col_item_name r = None \<or> col_price r = None \<or>
                                   col_location r = None \<or> col_unit r = None \<or>
                                   (\<exists>s. col_item_name r = Some s \<and> (\<forall>c\<in>set s. isspace c))))
                    rs\<rparr>)"
    by (simp only: clean_nonempty_iff) simp
qed simp

theorem incomplete_row_contributes_nothing_witness:
  "(\<exists>s. col_item_name blank_name_row = Some s \<and> (\<forall>c\<in>set s. isspace c)) \<and>
   load_item_data mean_exact round2_exact
     (Inr \<lparr>columns = all_columns,
           rows = [raw ''Rice'' 5 ''KL'' ''kg''] @ blank_name_row # [raw ''Rice'' 7 ''KL'' ''kg'']\<rparr>) =
   load_item_data mean_exact round2_exact
     (Inr \<lparr>columns = all_columns,
           rows = [raw ''Rice'' 5 ''KL'' ''kg''] @ [raw ''Rice'' 7 ''KL'' ''kg'']\<rparr>)"
proof -
  have blank: "\<exists>s. col_item_name blank_name_row = Some s \<and> (\<forall>c\<in>set s. isspace c)"
    by (simp add: blank_name_row_def raw_def lit_def isspace_def)
  then have "col_item_name blank_name_row = None \<or> col_price blank_name_row = None \<or>
      col_location blank_name_row = None \<or> col_unit blank_name_row = None \<or>
      (\<exists>s. col_item_name blank_name_row = Some s \<and> (\<forall>c\<in>set s. isspace c))"
    by blast
  from incomplete_row_contributes_nothing [OF this] blank show ?thesis by blast
qed

text \<open>
  Claim C3, as stated, fails: a row whose location is the blank string \<open>" "\<close> (and whose
  other cells are present) is not dropped; it is returned as a record of its own.
\<close>

theorem blank_location_row_is_aggregated:
  "strip (lit '' '') = [] \<and>
   col_location blank_location_row = Some (lit '' '') \<and>
   load_item_data mean_exact round2_exact
     (Inr \<lparr>columns = all_columns, rows = [blank_location_row]\<rparr>) =
     ([\<lparr>location = lit '' '', unit = lit ''kg'', name = lit ''Rice'', price = 5\<rparr>],
      [lit '' ''], [lit ''kg''])"
  by (simp add: loader_eval blank_location_row_def)

theorem rows_with_null_or_blank_name_are_ignored_witness:
  "load_item_data mean_exact round2_exact
     (Inr \<lparr>columns = all_columns,
           rows = [raw ''Rice'' 5 ''KL'' ''kg'', null_price_row, blank_name_row,
                   blank_location_row]\<rparr>) =
   load_item_data mean_exact round2_exact
     (Inr \<lparr>columns = all_columns,
           rows = [raw ''Rice'' 5 ''KL'' ''kg'', blank_location_row]\<rparr>)"
  using rows_with_null_or_blank_name_are_ignored
    [of mean_exact round2_exact all_columns
        "[raw ''Rice'' 5 ''KL'' ''kg'', null_price_row, blank_name_row, blank_location_row]"]
  by (simp add: raw_def null_price_row_def blank_name_row_def blank_location_row_def
      lit_def isspace_def)

text \<open>
  Claim C6. When \<open>pd.read_parquet\<close> raises (file not found, or any other error), or when
  the frame lacks one of the four required columns, the body of the \<open>try\<close> block raises,
  and \<open>load_item_data\<close> returns three empty lists.
\<close>

theorem failing_source_gives_empty_collections:
  assumes "src = Inl e \<or>
           (src = Inr df \<and> c \<in> set [COL_ITEM_NAME, COL_PRICE, COL_LOCATION, COL_UNIT] \<and>
            c \<notin> set (columns df))"
  shows "(\<exists>e'. load_body mean round2 src = Inl e') \<and>
         load_item_data mean round2 src = ([], [], [])"
  using assms
proof
  assume "src = Inl e"
  then show ?thesis by (simp add: load_item_data_Inl load_body_def)
next
  assume h: "src = Inr df \<and> c \<in> set [COL_ITEM_NAME, COL_PRICE, COL_LOCATION, COL_UNIT] \<and>
            c \<notin> set (columns df)"
  then have miss: "\<not> set [COL_ITEM_NAME, COL_LOCATION, COL_UNIT, COL_PRICE] \<subseteq> set (columns df)"
    by auto
  then have "filter (\<lambda>c. c \<notin> set (columns df))
               [COL_ITEM_NAME, COL_LOCATION, COL_UNIT, COL_PRICE] \<noteq> []"
    by (auto simp: filter_empty_conv)
  then have "\<exists>e'. load_body mean round2 (Inr df) = Inl e'"
    by (simp add: load_body_def Let_def)
  with h miss show ?thesis by (simp add: load_item_data_missing)
qed

theorem failing_source_gives_empty_collections_witness:
  "load_item_data mean_exact round2_exact (Inl FileNotFoundError) = ([], [], []) \<and>
   COL_LOCATION \<in> set [COL_ITEM_NAME, COL_PRICE, COL_LOCATION, COL_UNIT] \<and>
   COL_LOCATION \<notin> set (columns \<lparr>columns = [COL_ITEM_NAME, COL_PRICE, COL_UNIT], rows = rows rice_frame\<rparr>) \<and>
   load_item_data mean_exact round2_exact
     (Inr \<lparr>columns = [COL_ITEM_NAME, COL_PRICE, COL_UNIT], rows = rows rice_frame\<rparr>) = ([], [], [])"
proof -
  let ?df = "\<lparr>columns = [COL_ITEM_NAME, COL_PRICE, COL_UNIT], rows = rows rice_frame\<rparr>"
  have a: "COL_LOCATION \<in> set [COL_ITEM_NAME, COL_PRICE, COL_LOCATION, COL_UNIT]" by simp
  have b: "COL_LOCATION \<notin> set (columns ?df)"
    by (simp add: COL_ITEM_NAME_def COL_PRICE_def COL_LOCATION_def COL_UNIT_def lit_def)
  have "Inr ?df = (Inl FileNotFoundError :: py_error + rat dataframe) \<or>
        (Inr ?df = Inr ?df \<and> COL_LOCATION \<in> set [COL_ITEM_NAME, COL_PRICE, COL_LOCATION, COL_UNIT] \<and>
         COL_LOCATION \<notin> set (columns ?df))"
    using a b by blast
  from failing_source_gives_empty_collections [OF this, of mean_exact round2_exact]
  have 1: "load_item_data mean_exact round2_exact (Inr ?df) = ([], [], [])" by blast
  have "(Inl FileNotFoundError :: py_error + rat dataframe) = Inl FileNotFoundError \<or>
        ((Inl FileNotFoundError :: py_error + rat dataframe) = Inr ?df \<and>
         COL_LOCATION \<in> set [COL_ITEM_NAME, COL_PRICE, COL_LOCATION, COL_UNIT] \<and>
         COL_LOCATION \<notin> set (columns ?df))"
    by blast
  from failing_source_gives_empty_collections [OF this, of mean_exact round2_exact]
  have 2: "load_item_data mean_exact round2_exact (Inl FileNotFoundError) = ([], [], [])" by blast
  from 1 2 a b show ?thesis by blast
qed

lemma market_example:
  "load_item_data mean_exact round2_exact (Inr market_frame) =
     ([\<lparr>location = lit ''JB'', unit = lit ''kg'', name = lit ''Rice'', price = 4\<rparr>,
       \<lparr>location = lit ''JB'', unit = lit ''unit'', name = lit ''Egg'', price = 1\<rparr>,
       \<lparr>location = lit ''KL'', unit = lit ''kg'', name = lit ''Rice'', price = 6\<rparr>],
      [lit ''JB'', lit ''KL''], [lit ''kg'', lit ''unit''])"
  by (simp add: loader_eval market_frame_def)

theorem aggregated_keys_unique_witness:
  "map agg_key (fst (load_item_data mean_exact round2_exact (Inr market_frame))) =
     [(lit ''JB'', lit ''kg'', lit ''Rice''), (lit ''JB'', lit ''unit'', lit ''Egg''),
      (lit ''KL'', lit ''kg'', lit ''Rice'')] \<and>
   distinct [(lit ''JB'', lit ''kg'', lit ''Rice''), (lit ''JB'', lit ''unit'', lit ''Egg''),
      (lit ''KL'', lit ''kg'', lit ''Rice'')]"
  using aggregated_keys_unique [of mean_exact round2_exact "Inr market_frame"]
  by (simp add: market_example agg_key_def)

theorem aggregated_sorted_by_key_witness:
  "map agg_key (fst (load_item_data mean_exact round2_exact (Inr market_frame))) =
     [(lit ''JB'', lit ''kg'', lit ''Rice''), (lit ''JB'', lit ''unit'', lit ''Egg''),
      (lit ''KL'', lit ''kg'', lit ''Rice'')] \<and>
   sorted [(lit ''JB'', lit ''kg'', lit ''Rice''), (lit ''JB'', lit ''unit'', lit ''Egg''),
      (lit ''KL'', lit ''kg'', lit ''Rice'')]"
  using aggregated_sorted_by_key [of mean_exact round2_exact "Inr market_frame"]
  by (simp add: market_example agg_key_def)

theorem category_lists_sorted_distinct_witness:
  "snd (load_item_data mean_exact round2_exact (Inr market_frame)) =
     ([lit ''JB'', lit ''KL''], [lit ''kg'', lit ''unit'']) \<and>
   sorted [lit ''JB'', lit ''KL''] \<and> distinct [lit ''JB'', lit ''KL''] \<and>
   sorted [lit ''kg'', lit ''unit''] \<and> distinct [lit ''kg'', lit ''unit'']"
  using category_lists_sorted_distinct [of mean_exact round2_exact "Inr market_frame"]
  by (simp add: market_example)

section \<open>Properties of the chat handler\<close>

text \<open>
  Claim C8. While \<open>gemini_client\<close> is \<open>None\<close>, the handler answers every request with
  the message "AI Client not initialized. ..." and status 500, and makes no call to the
  remote service.
\<close>

theorem uninitialized_client_short_circuits:
  "chat_api to_json py_str None PI_DATA request_json =
     (Inr \<lparr>response = lit ''AI Client not initialized. Please check your API key and setup.'',
           status = 500\<rparr>, [])"
  by (simp add: chat_api_def)

text \<open>
  Claim C7, as stated, fails: for the body \<open>{}\<close>, which has no \<open>prompt\<close>, the handler
  answers with status 500, not 400, when the client is not initialised.
\<close>

theorem missing_prompt_uninitialized_gives_500:
  "json_get (JDict []) (lit ''prompt'') = Inr JNull \<and>
   chat_api (\<lambda>d. lit ''[]'') (\<lambda>v. []) None ([] :: rat agg list) (JDict []) =
     (Inr \<lparr>response = lit ''AI Client not initialized. Please check your API key and setup.'',
           status = 500\<rparr>, [])"
  by (simp add: chat_api_def json_get_def)

text \<open>
  Claim C7, as amended. With an initialised client, a request whose JSON object has no
  \<open>prompt\<close> field, or has the empty string as its prompt, is answered with the message
  "No prompt provided." and status 400; the answer depends neither on the data nor on the
  client (no prompt is built), and no call to the remote service is made.
\<close>

theorem missing_prompt_rejected:
  assumes "map_of kvs (lit ''prompt'') = None \<or> map_of kvs (lit ''prompt'') = Some (JStr [])"
  shows "chat_api to_json py_str (Some generate_content) PI_DATA (JDict kvs) =
           (Inr \<lparr>response = lit ''No prompt provided.'', status = 400\<rparr>, [])"
  using assms by (auto simp: chat_api_def json_get_def)

theorem missing_prompt_rejected_witness:
  "map_of [] (lit ''prompt'') = (None :: json option) \<and>
   chat_api (\<lambda>d. lit ''[]'') (\<lambda>v. []) (Some echo_client) ([] :: rat agg list) (JDict []) =
     (Inr \<lparr>response = lit ''No prompt provided.'', status = 400\<rparr>, []) \<and>
   map_of [(lit ''prompt'', JStr [])] (lit ''prompt'') = Some (JStr []) \<and>
   chat_api (\<lambda>d. lit ''[]'') (\<lambda>v. []) (Some echo_client) ([] :: rat agg list)
       (JDict [(lit ''prompt'', JStr [])]) =
     (Inr \<lparr>response = lit ''No prompt provided.'', status = 400\<rparr>, [])"
proof -
  have a: "map_of [] (lit ''prompt'') = (None :: json option)" by simp
  have b: "map_of [(lit ''prompt'', JStr [])] (lit ''prompt'') = Some (JStr [])" by simp
  from a have a': "map_of [] (lit ''prompt'') = (None :: json option) \<or>
     map_of [] (lit ''prompt'') = Some (JStr [])" by blast
  from b have b': "map_of [(lit ''prompt'', JStr [])] (lit ''prompt'') = None \<or>
     map_of [(lit ''prompt'', JStr [])] (lit ''prompt'') = Some (JStr [])" by blast
  from missing_prompt_rejected [OF a'] missing_prompt_rejected [OF b'] a b
  show ?thesis by blast
qed

text \<open>
  Claim C10. The initialisation of the client is tested before the prompt: while
  \<open>gemini_client\<close> is \<open>None\<close> every request, whatever its body, is answered with
  status 500, and an answer with status 400 is given only by a handler whose client is
  initialised.
\<close>

theorem initialization_checked_before_prompt:
  "(\<exists>r. fst (chat_api to_json py_str None PI_DATA request_json) = Inr r \<and> status r = 500) \<and>
   (fst (chat_api to_json py_str gemini_client PI_DATA request_json) = Inr r' \<and> status r' = 400
      \<longrightarrow> gemini_client \<noteq> None)"
  by (cases gemini_client) (auto simp: chat_api_def)

theorem initialization_checked_before_prompt_witness:
  "fst (chat_api (\<lambda>d. lit ''[]'') (\<lambda>v. []) (Some echo_client) ([] :: rat agg list) (JDict [])) =
     Inr \<lparr>response = lit ''No prompt provided.'', status = 400\<rparr> \<and>
   status \<lparr>response = lit ''No prompt provided.'', status = 400\<rparr> = 400 \<and>
   Some echo_client \<noteq> None \<and>
   (\<exists>r. fst (chat_api (\<lambda>d. lit ''[]'') (\<lambda>v. []) None ([] :: rat agg list) (JDict [])) = Inr r \<and>
        status r = 500)"
proof -
  have h: "fst (chat_api (\<lambda>d. lit ''[]'') (\<lambda>v. []) (Some echo_client) ([] :: rat agg list) (JDict [])) =
     Inr \<lparr>response = lit ''No prompt provided.'', status = 400\<rparr> \<and>
     status \<lparr>response = lit ''No prompt provided.'', status = 400\<rparr> = 400"
    by (simp add: chat_api_def json_get_def)
  from initialization_checked_before_prompt
    [of "\<lambda>d. lit ''[]''" "\<lambda>v. []" "[] :: rat agg list" "JDict []" "Some echo_client"
        "\<lparr>response = lit ''No prompt provided.'', status = 400\<rparr>"] h
  show ?thesis by blast
qed

lemma echo_example:
  "chat_api (\<lambda>d. lit ''[]'') (\<lambda>v. []) (Some echo_client) ([] :: rat agg list)
     (JDict [(lit ''prompt'', JStr (lit ''hi''))]) =
   (Inr \<lparr>response = full_prompt_text (lit ''[]'') (lit ''hi''), status = 200\<rparr>,
    [\<lparr>model = lit ''gemini-2.5-flash'', contents = full_prompt_text (lit ''[]'') (lit ''hi''),
      system_instruction = system_instruction_text 0\<rparr>])"
  by (simp add: chat_api_def json_get_def format_field_def echo_client_def lit_def Let_def)

theorem uninitialized_client_short_circuits_witness:
  "chat_api (\<lambda>d. lit ''[]'') (\<lambda>v. []) None ([] :: rat agg list)
     (JDict [(lit ''prompt'', JStr (lit ''hi''))]) =
     (Inr \<lparr>response = lit ''AI Client not initialized. Please check your API key and setup.'',
           status = 500\<rparr>, [])"
  using uninitialized_client_short_circuits
    [of "\<lambda>d. lit ''[]''" "\<lambda>v. []" "[] :: rat agg list" "JDict [(lit ''prompt'', JStr (lit ''hi''))]"]
  by simp

end
